theory Spec2Isabelle
  imports Main "HOL-Library.Multiset"
begin

section \<open>The Forecast wrapper of \<^verbatim>\<open>shared/Forecast/forecast.py\<close>\<close>

text \<open>
  The module wraps the client of a remote forecasting service. Every method of the class
  \<^verbatim>\<open>Forecast\<close> is embedded as a function that takes the client, the object and a session
  (the state of the remote service, the calls issued so far, the records logged so far)
  and returns a result or an error together with the session after the call.
\<close>

subsection \<open>Errors\<close>

text \<open>
  The exceptions the client can raise. The three named classes are the ones the module
  names in its \<^verbatim>\<open>except\<close> clauses; every other exception of a client call is
  \<open>OtherClientError\<close>. The string is what \<^verbatim>\<open>str(excinfo)\<close> yields.
\<close>

datatype client_error =
    ResourceAlreadyExistsException string
  | ResourceInUseException string
  | ResourceNotFoundException string
  | OtherClientError string

text \<open>
  The exceptions a method of the class can end with: an exception of the client, the
  \<^verbatim>\<open>ValueError\<close> raised by \<^verbatim>\<open>export\<close>, and the exceptions Python itself raises:
  \<^verbatim>\<open>KeyError\<close> (a missing dictionary key or enumeration member, with the key),
  \<^verbatim>\<open>TypeError\<close> (an ordering comparison with \<^verbatim>\<open>None\<close>, a keyword given twice) and
  \<^verbatim>\<open>AttributeError\<close> (a method called on \<^verbatim>\<open>None\<close>).
\<close>

datatype error =
    ClientError client_error
  | ValueError string
  | KeyError "string option"
  | TypeError string
  | AttributeError string

subsection \<open>The Status enumeration\<close>

text \<open>
  \<^verbatim>\<open>shared/status.py\<close> is not among the sources. The module reads the members
  \<^verbatim>\<open>Status.DOES_NOT_EXIST\<close> and \<^verbatim>\<open>Status.CREATE_PENDING\<close> by name, so both exist; the names
  of the remaining members are a parameter (\<open>names\<close> below), and \<open>Member n\<close> is the member
  called \<open>n\<close>.
\<close>

datatype Status = DOES_NOT_EXIST | CREATE_PENDING | Member string

definition Status_names :: "string list \<Rightarrow> string list" where
  "Status_names names = ''DOES_NOT_EXIST'' # ''CREATE_PENDING'' # names"

text \<open>\<^verbatim>\<open>Status[key]\<close>: the member of that name, \<^verbatim>\<open>KeyError\<close> when there is none.\<close>

definition Status_getitem :: "string list \<Rightarrow> string option \<Rightarrow> error + Status" where
  "Status_getitem names key =
     (case key of
        None \<Rightarrow> Inl (KeyError None)
      | Some n \<Rightarrow>
          if n = ''DOES_NOT_EXIST'' then Inr DOES_NOT_EXIST
          else if n = ''CREATE_PENDING'' then Inr CREATE_PENDING
          else if n \<in> set names then Inr (Member n)
          else Inl (KeyError (Some n)))"

text \<open>\<^verbatim>\<open>str(member)\<close> of an enumeration member.\<close>

fun Status_str :: "Status \<Rightarrow> string" where
  "Status_str DOES_NOT_EXIST = ''Status.DOES_NOT_EXIST''"
| "Status_str CREATE_PENDING = ''Status.CREATE_PENDING''"
| "Status_str (Member n) = ''Status.'' @ n"

subsection \<open>Requests and responses of the service\<close>

text \<open>
  The dictionaries exchanged with the service are records, one field for each key the
  module reads or writes; a field of option type is \<open>None\<close> when the key is absent, which
  is what \<^verbatim>\<open>.get(key)\<close> returns then. A time is an instant, as an integer. The prefix of
  a field name tells the dictionary: \<open>fs\<close> an entry of \<^verbatim>\<open>list_forecasts\<close>, \<open>fd\<close> the answer
  of \<^verbatim>\<open>describe_forecast\<close>, \<open>ed\<close> the answer of \<^verbatim>\<open>describe_forecast_export_job\<close>, \<open>ds\<close> a
  dataset of the dataset group, \<open>cf\<close> the arguments of \<^verbatim>\<open>create_forecast\<close>, \<open>ce\<close> the
  arguments of \<^verbatim>\<open>create_forecast_export_job\<close>.
\<close>

type_synonym datetime = int

record list_filter =
  Key :: string
  Condition :: string
  Value :: string

record forecast_summary =
  fs_ForecastArn :: "string option"
  fs_LastModificationTime :: "datetime option"

record page =
  Forecasts :: "forecast_summary list option"

record forecast_description =
  fd_PredictorArn :: "string option"
  fd_CreationTime :: "datetime option"
  fd_Status :: "string option"

record export_description =
  ed_Status :: "string option"

record dataset =
  ds_LastModificationTime :: "datetime option"

datatype config_value = ConfigStr string | ConfigList "string list"

record create_forecast_request =
  cf_ForecastName :: string
  cf_PredictorArn :: "string option"
  cf_Tags :: "(string \<times> string) list"
  cf_config :: "(string \<times> config_value) list"

record create_export_request =
  ce_ForecastArn :: "string option"
  ce_ForecastExportJobName :: string
  ce_Path :: string
  ce_RoleArn :: "string option"

text \<open>
  A call of the client, as the session records it. A pagination of \<^verbatim>\<open>list_forecasts\<close> is
  one call: the module drains the iterator in one loop, and an exception on any page ends
  \<^verbatim>\<open>history\<close> with nothing kept.
\<close>

datatype call =
    ListForecasts "list_filter list"
  | DescribeForecast "string option"
  | CreateForecast create_forecast_request
  | DescribeForecastExportJob string
  | CreateForecastExportJob create_export_request

text \<open>
  The client (\<^verbatim>\<open>self.cli\<close>): each operation answers from the state \<open>'w\<close> of the remote
  service and may change it, so two calls in a row can be answered differently.
\<close>

record 'w client =
  list_forecasts :: "list_filter list \<Rightarrow> 'w \<Rightarrow> (client_error + page list) \<times> 'w"
  describe_forecast :: "string option \<Rightarrow> 'w \<Rightarrow> (client_error + forecast_description) \<times> 'w"
  create_forecast :: "create_forecast_request \<Rightarrow> 'w \<Rightarrow> (client_error + unit) \<times> 'w"
  describe_forecast_export_job :: "string \<Rightarrow> 'w \<Rightarrow> (client_error + export_description) \<times> 'w"
  create_forecast_export_job :: "create_export_request \<Rightarrow> 'w \<Rightarrow> (client_error + unit) \<times> 'w"

datatype level = DEBUG | INFO

record 'w session =
  world :: 'w
  calls :: "call list"
  logged :: "(level \<times> string) list"

definition invoke :: "('w \<Rightarrow> 'r \<times> 'w) \<Rightarrow> call \<Rightarrow> 'w session \<Rightarrow> 'r \<times> 'w session" where
  "invoke operation c s =
     (case operation (world s) of
        (r, w) \<Rightarrow> (r, s\<lparr>world := w, calls := calls s @ [c]\<rparr>))"

definition logger :: "level \<Rightarrow> string \<Rightarrow> 'w session \<Rightarrow> 'w session" where
  "logger l msg s = s\<lparr>logged := logged s @ [(l, msg)]\<rparr>"

subsection \<open>The collaborators and the objects of the module\<close>

text \<open>
  \<^verbatim>\<open>Predictor\<close>, \<^verbatim>\<open>DatasetGroup\<close>, \<^verbatim>\<open>DatasetFile\<close> and \<^verbatim>\<open>ForecastClient\<close> are not among the
  sources: what the module reads of them is a field of the records below
  (\<open>predictor_arn\<close> is \<^verbatim>\<open>self._predictor.arn\<close>, \<open>tags\<close> is \<^verbatim>\<open>self.tags\<close>,
  \<open>latest_timestamp\<close> is the text the f-string makes of
  \<^verbatim>\<open>self._dataset_group.latest_timestamp\<close>).
\<close>

record DatasetGroup =
  dataset_group_arn :: string
  dataset_group_name :: string
  latest_timestamp :: string
  datasets :: "dataset list"

record DatasetFile =
  bucket :: string

record Forecast =
  predictor_arn :: "string option"
  dataset_group :: DatasetGroup
  forecast_config :: "(string \<times> config_value) list"
  tags :: "(string \<times> string) list"

text \<open>
  \<^verbatim>\<open>class Export\<close>: the class attribute \<^verbatim>\<open>status = Status.DOES_NOT_EXIST\<close> is what a new
  instance reads until the attribute is assigned.
\<close>

record Export =
  status :: Status

definition Export_new :: Export where
  "Export_new = \<lparr>status = DOES_NOT_EXIST\<rparr>"

subsection \<open>history\<close>

text \<open>
  \<^verbatim>\<open>past_forecasts.extend(page.get("Forecasts", []))\<close> over the pages.
\<close>

fun extend_pages :: "page list \<Rightarrow> forecast_summary list" where
  "extend_pages [] = []"
| "extend_pages (p # ps) =
     (case Forecasts p of None \<Rightarrow> [] | Some fs \<Rightarrow> fs) @ extend_pages ps"

text \<open>
  \<^verbatim>\<open>itemgetter("LastModificationTime")\<close> on every entry: \<^verbatim>\<open>KeyError\<close> at the first entry
  without the key.
\<close>

fun keyed :: "forecast_summary list \<Rightarrow> error + (datetime \<times> forecast_summary) list" where
  "keyed [] = Inr []"
| "keyed (x # xs) =
     (case fs_LastModificationTime x of
        None \<Rightarrow> Inl (KeyError (Some ''LastModificationTime''))
      | Some t \<Rightarrow> (case keyed xs of Inl e \<Rightarrow> Inl e | Inr kxs \<Rightarrow> Inr ((t, x) # kxs)))"

text \<open>
  \<^verbatim>\<open>sorted(past_forecasts, key=itemgetter("LastModificationTime"), reverse=True)\<close>: the
  keys are computed first, then the list is reversed, sorted stably in ascending order
  of the key and reversed again, so entries with equal keys keep their order.
\<close>

definition sorted_reverse :: "forecast_summary list \<Rightarrow> error + forecast_summary list" where
  "sorted_reverse xs =
     (case keyed xs of
        Inl e \<Rightarrow> Inl e
      | Inr kxs \<Rightarrow> Inr (map snd (rev (sort_key fst (rev kxs)))))"

definition Forecast_history ::
  "'w client \<Rightarrow> Forecast \<Rightarrow> 'w session \<Rightarrow> (error + forecast_summary list) \<times> 'w session" where
  "Forecast_history cli self s =
     (let filters = [\<lparr>Key = ''DatasetGroupArn'', Condition = ''IS'',
                      Value = dataset_group_arn (dataset_group self)\<rparr>]
      in case invoke (list_forecasts cli filters) (ListForecasts filters) s of
           (Inl e, s1) \<Rightarrow> (Inl (ClientError e), s1)
         | (Inr pages, s1) \<Rightarrow> (sorted_reverse (extend_pages pages), s1))"

subsection \<open>arn\<close>

definition Forecast_arn ::
  "'w client \<Rightarrow> Forecast \<Rightarrow> 'w session \<Rightarrow> (error + string option) \<times> 'w session" where
  "Forecast_arn cli self s =
     (case Forecast_history cli self s of
        (Inl e, s1) \<Rightarrow> (Inl e, s1)
      | (Inr past_forecasts, s1) \<Rightarrow>
          (case past_forecasts of
             [] \<Rightarrow> (Inr None, s1)
           | p # _ \<Rightarrow> (Inr (fs_ForecastArn p), s1)))"

subsection \<open>status\<close>

text \<open>
  The loop over \<^verbatim>\<open>self._dataset_group.datasets\<close>: \<open>Inr True\<close> when it returns from inside
  (a dataset is newer than the forecast), \<open>Inr False\<close> when it runs to its end. The
  comparison \<^verbatim>\<open>>\<close> raises \<^verbatim>\<open>TypeError\<close> when either side is \<^verbatim>\<open>None\<close>.
\<close>

fun datasets_changed :: "dataset list \<Rightarrow> datetime option \<Rightarrow> error + bool" where
  "datasets_changed [] created = Inr False"
| "datasets_changed (d # ds) created =
     (case (ds_LastModificationTime d, created) of
        (Some t, Some c) \<Rightarrow> if t > c then Inr True else datasets_changed ds created
      | _ \<Rightarrow> Inl (TypeError ''> not supported''))"

definition Forecast_status ::
  "'w client \<Rightarrow> string list \<Rightarrow> Forecast \<Rightarrow> 'w session \<Rightarrow> (error + Status) \<times> 'w session" where
  "Forecast_status cli names self s =
     (case Forecast_history cli self s of
        (Inl e, s1) \<Rightarrow> (Inl e, s1)
      | (Inr past_forecasts, s1) \<Rightarrow>
          (case past_forecasts of
             [] \<Rightarrow> (Inr DOES_NOT_EXIST, logger DEBUG ''No past forecasts found'' s1)
           | p # _ \<Rightarrow>
               (case invoke (describe_forecast cli (fs_ForecastArn p))
                            (DescribeForecast (fs_ForecastArn p)) s1 of
                  (Inl e, s2) \<Rightarrow> (Inl (ClientError e), s2)
                | (Inr past_status, s2) \<Rightarrow>
                    if fd_PredictorArn past_status \<noteq> predictor_arn self
                    then (Inr DOES_NOT_EXIST,
                          logger DEBUG ''Most recent forecast was generated with a different predictor, a new forecast should be created'' s2)
                    else
                      (case datasets_changed (datasets (dataset_group self))
                                             (fd_CreationTime past_status) of
                         Inl e \<Rightarrow> (Inl e, s2)
                       | Inr True \<Rightarrow>
                           (Inr DOES_NOT_EXIST,
                            logger DEBUG ''Datasets have changed since last forecast generation, a new forecast should be created '' s2)
                       | Inr False \<Rightarrow> (Status_getitem names (fd_Status past_status), s2)))))"

subsection \<open>create\<close>

text \<open>
  \<^verbatim>\<open>create_forecast\<close> is called with the keywords \<^verbatim>\<open>ForecastName\<close>, \<^verbatim>\<open>PredictorArn\<close> and
  \<^verbatim>\<open>Tags\<close> and with \<^verbatim>\<open>**self._forecast_config\<close>: Python raises \<^verbatim>\<open>TypeError\<close> at the call,
  before the client runs, when the configuration holds one of the three keywords again.
\<close>

definition keyword_repeated :: "(string \<times> config_value) list \<Rightarrow> bool" where
  "keyword_repeated config =
     list_ex (\<lambda>k. k \<in> set [''ForecastName'', ''PredictorArn'', ''Tags'']) (map fst config)"

definition Forecast_create ::
  "'w client \<Rightarrow> Forecast \<Rightarrow> 'w session \<Rightarrow> (error + unit) \<times> 'w session" where
  "Forecast_create cli self s =
     (let forecast_name = ''forecast_'' @ dataset_group_name (dataset_group self) @ ''_''
                          @ latest_timestamp (dataset_group self);
          s1 = logger INFO (''Creating forecast '' @ forecast_name) s;
          request = \<lparr>cf_ForecastName = forecast_name,
                     cf_PredictorArn = predictor_arn self,
                     cf_Tags = tags self,
                     cf_config = forecast_config self\<rparr>
      in if keyword_repeated (forecast_config self)
         then (Inl (TypeError ''got multiple values for keyword argument''), s1)
         else
           (case invoke (create_forecast cli request) (CreateForecast request) s1 of
              (Inr _, s2) \<Rightarrow> (Inr (), s2)
            | (Inl (ResourceAlreadyExistsException m), s2) \<Rightarrow>
                (Inr (), logger DEBUG (''Forecast '' @ forecast_name @ '' is already creating'') s2)
            | (Inl (ResourceInUseException m), s2) \<Rightarrow>
                (Inr (), logger DEBUG (''Forecast '' @ forecast_name @ '' is updating: '' @ m) s2)
            | (Inl e, s2) \<Rightarrow> (Inl (ClientError e), s2)))"

text \<open>
  The exceptions the two \<^verbatim>\<open>except\<close> clauses of \<^verbatim>\<open>create\<close> name.
\<close>

definition absorbed :: "client_error \<Rightarrow> bool" where
  "absorbed e =
     (case e of
        ResourceAlreadyExistsException _ \<Rightarrow> True
      | ResourceInUseException _ \<Rightarrow> True
      | _ \<Rightarrow> False)"

subsection \<open>export\<close>

text \<open>
  \<^verbatim>\<open>str.replace(old, new)\<close>: every occurrence of \<open>old\<close>, from the left, without overlap;
  with an empty \<open>old\<close>, \<open>new\<close> goes before every character and at the end.
\<close>

function replace :: "string \<Rightarrow> string \<Rightarrow> string \<Rightarrow> string" where
  "replace old new [] = (if old = [] then new else [])"
| "replace old new (c # cs) =
     (if old = [] then new @ c # replace old new cs
      else if take (length old) (c # cs) = old
           then new @ replace old new (drop (length old) (c # cs))
           else c # replace old new cs)"
  by pat_completeness auto
termination
  by (relation "measure (\<lambda>(old, new, s). length s)") auto

text \<open>\<^verbatim>\<open>not self.arn\<close>: true of \<^verbatim>\<open>None\<close> and of the empty string.\<close>

definition falsy :: "string option \<Rightarrow> bool" where
  "falsy a = (a = None \<or> a = Some [])"

text \<open>
  The body of the \<^verbatim>\<open>try\<close> of \<^verbatim>\<open>export\<close> (lines 196 to 202): \<^verbatim>\<open>self.arn\<close> is read again,
  the export job is described under the identifier derived from it, and the reported
  status is looked up in the enumeration.
\<close>

definition export_try ::
  "'w client \<Rightarrow> string list \<Rightarrow> Forecast \<Rightarrow> string \<Rightarrow> 'w session \<Rightarrow> (error + Status) \<times> 'w session" where
  "export_try cli names self export_name s =
     (case Forecast_arn cli self s of
        (Inl e, s1) \<Rightarrow> (Inl e, s1)
      | (Inr None, s1) \<Rightarrow> (Inl (AttributeError ''NoneType object has no attribute replace''), s1)
      | (Inr (Some a), s1) \<Rightarrow>
          (let job = replace '':forecast/'' '':forecast-export-job/'' a @ ''/'' @ export_name
           in case invoke (describe_forecast_export_job cli job) (DescribeForecastExportJob job) s1 of
                (Inl e, s2) \<Rightarrow> (Inl (ClientError e), s2)
              | (Inr past_status, s2) \<Rightarrow> (Status_getitem names (ed_Status past_status), s2)))"

text \<open>The last two statements of \<^verbatim>\<open>export\<close>: the debug record and the return.\<close>

definition export_return :: "string \<Rightarrow> Export \<Rightarrow> 'w session \<Rightarrow> (error + Export) \<times> 'w session" where
  "export_return export_name past_export s =
     (Inr past_export,
      logger DEBUG (''Export status for '' @ export_name @ '' is '' @ Status_str (status past_export)) s)"

text \<open>
  \<open>role\<close> is \<^verbatim>\<open>environ.get("FORECAST_ROLE")\<close>. The \<^verbatim>\<open>except\<close> clauses catch the two named
  exceptions wherever the \<^verbatim>\<open>try\<close> body raises them, the second reading of \<^verbatim>\<open>self.arn\<close>
  included; every other exception leaves \<^verbatim>\<open>export\<close>.
\<close>

definition Forecast_export ::
  "'w client \<Rightarrow> string list \<Rightarrow> string option \<Rightarrow> Forecast \<Rightarrow> DatasetFile \<Rightarrow> 'w session
     \<Rightarrow> (error + Export) \<times> 'w session" where
  "Forecast_export cli names role self dataset_file s =
     (case Forecast_arn cli self s of
        (Inl e, s1) \<Rightarrow> (Inl e, s1)
      | (Inr a1, s1) \<Rightarrow>
          if falsy a1
          then (Inl (ValueError ''Forecast does not yet exist - cannot perform export.''), s1)
          else
            (let export_name = ''export_'' @ dataset_group_name (dataset_group self) @ ''_''
                               @ latest_timestamp (dataset_group self);
                 past_export = Export_new
             in case export_try cli names self export_name s1 of
                  (Inr st, s2) \<Rightarrow> export_return export_name (past_export\<lparr>status := st\<rparr>) s2
                | (Inl (ClientError (ResourceInUseException m)), s2) \<Rightarrow>
                    export_return export_name past_export
                      (logger DEBUG (''Forecast export '' @ export_name @ '' is updating: '' @ m) s2)
                | (Inl (ClientError (ResourceNotFoundException m)), s2) \<Rightarrow>
                    (case Forecast_arn cli self
                            (logger INFO (''Creating forecast export '' @ export_name) s2) of
                       (Inl e, s3) \<Rightarrow> (Inl e, s3)
                     | (Inr a3, s3) \<Rightarrow>
                         (let request = \<lparr>ce_ForecastArn = a3,
                                          ce_ForecastExportJobName = export_name,
                                          ce_Path = ''s3://'' @ bucket dataset_file @ ''/exports/''
                                                    @ export_name,
                                          ce_RoleArn = role\<rparr>
                          in case invoke (create_forecast_export_job cli request)
                                         (CreateForecastExportJob request) s3 of
                               (Inl e, s4) \<Rightarrow> (Inl (ClientError e), s4)
                             | (Inr _, s4) \<Rightarrow>
                                 export_return export_name
                                   (past_export\<lparr>status := CREATE_PENDING\<rparr>) s4))
                | (Inl e, s2) \<Rightarrow> (Inl e, s2)))"

subsection \<open>A concrete service\<close>

text \<open>
  A client over a counter of the calls answered so far: the listing answers with the
  given pages, \<^verbatim>\<open>describe_forecast\<close> with the given description,
  \<^verbatim>\<open>describe_forecast_export_job\<close> with the given answer; \<^verbatim>\<open>create_forecast\<close> succeeds as
  the first call and reports that the forecast exists afterwards.
\<close>

definition example_client ::
  "page list \<Rightarrow> forecast_description \<Rightarrow> client_error + export_description \<Rightarrow> nat client" where
  "example_client pages described exported =
     \<lparr>list_forecasts = (\<lambda>_ w. (Inr pages, Suc w)),
      describe_forecast = (\<lambda>_ w. (Inr described, Suc w)),
      create_forecast = (\<lambda>_ w. (if w = 0 then Inr ()
                                  else Inl (ResourceAlreadyExistsException ''exists''), Suc w)),
      describe_forecast_export_job = (\<lambda>_ w. (exported, Suc w)),
      create_forecast_export_job = (\<lambda>_ w. (Inr (), Suc w))\<rparr>"

definition example_pages :: "page list" where
  "example_pages =
     [\<lparr>Forecasts = Some [\<lparr>fs_ForecastArn = Some ''arn:forecast/f1'', fs_LastModificationTime = Some 10\<rparr>,
                         \<lparr>fs_ForecastArn = Some ''arn:forecast/f2'', fs_LastModificationTime = Some 30\<rparr>]\<rparr>,
      \<lparr>Forecasts = None\<rparr>,
      \<lparr>Forecasts = Some [\<lparr>fs_ForecastArn = Some ''arn:forecast/f3'', fs_LastModificationTime = Some 20\<rparr>]\<rparr>]"

definition example_description :: "string \<Rightarrow> forecast_description" where
  "example_description st =
     \<lparr>fd_PredictorArn = Some ''arn:predictor/A'', fd_CreationTime = Some 40, fd_Status = Some st\<rparr>"

definition example_forecast :: "string \<Rightarrow> datetime list \<Rightarrow> Forecast" where
  "example_forecast p ts =
     \<lparr>predictor_arn = Some p,
      dataset_group = \<lparr>dataset_group_arn = ''arn:dataset-group/sales'',
                       dataset_group_name = ''sales'',
                       latest_timestamp = ''2021-05-01T00:00:00Z'',
                       datasets = map (\<lambda>t. \<lparr>ds_LastModificationTime = Some t\<rparr>) ts\<rparr>,
      forecast_config = [(''ForecastTypes'', ConfigList [''0.1'', ''0.5''])],
      tags = []\<rparr>"

definition start :: "nat session" where
  "start = \<lparr>world = 0, calls = [], logged = []\<rparr>"

lemmas example_defs = example_client_def example_pages_def example_description_def
  example_forecast_def start_def

section \<open>Properties\<close>

subsection \<open>What one reading of history or arn leaves in the session\<close>

lemma history_calls:
  "Forecast_history cli self s = (r, s1) \<Longrightarrow>
     calls s1 = calls s @ [ListForecasts [\<lparr>Key = ''DatasetGroupArn'', Condition = ''IS'',
                      Value = dataset_group_arn (dataset_group self)\<rparr>]] \<and> logged s1 = logged s"
  by (auto simp: Forecast_history_def invoke_def Let_def split: prod.splits sum.splits)

lemma arn_calls:
  "Forecast_arn cli self s = (r, s1) \<Longrightarrow>
     calls s1 = calls s @ [ListForecasts [\<lparr>Key = ''DatasetGroupArn'', Condition = ''IS'',
                      Value = dataset_group_arn (dataset_group self)\<rparr>]] \<and> logged s1 = logged s"
  by (auto simp: Forecast_arn_def split: prod.splits sum.splits list.splits dest: history_calls)

lemma example_history:
  "Forecast_history (example_client example_pages d e) (example_forecast p ts) s =
     (Inr [\<lparr>fs_ForecastArn = Some ''arn:forecast/f2'', fs_LastModificationTime = Some 30\<rparr>,
           \<lparr>fs_ForecastArn = Some ''arn:forecast/f3'', fs_LastModificationTime = Some 20\<rparr>,
           \<lparr>fs_ForecastArn = Some ''arn:forecast/f1'', fs_LastModificationTime = Some 10\<rparr>],
      s\<lparr>world := Suc (world s),
        calls := calls s @ [ListForecasts [\<lparr>Key = ''DatasetGroupArn'', Condition = ''IS'',
                                           Value = ''arn:dataset-group/sales''\<rparr>]]\<rparr>)"
  by (simp add: Forecast_history_def invoke_def sorted_reverse_def example_defs)

lemma example_arn:
  "Forecast_arn (example_client example_pages d e) (example_forecast p ts) s =
     (Inr (Some ''arn:forecast/f2''),
      s\<lparr>world := Suc (world s),
        calls := calls s @ [ListForecasts [\<lparr>Key = ''DatasetGroupArn'', Condition = ''IS'',
                                           Value = ''arn:dataset-group/sales''\<rparr>]]\<rparr>)"
  by (simp add: Forecast_arn_def example_history)

lemma example_no_arn:
  "Forecast_arn (example_client [\<lparr>Forecasts = Some []\<rparr>] d e) (example_forecast p ts) s =
     (Inr None,
      s\<lparr>world := Suc (world s),
        calls := calls s @ [ListForecasts [\<lparr>Key = ''DatasetGroupArn'', Condition = ''IS'',
                                           Value = ''arn:dataset-group/sales''\<rparr>]]\<rparr>)"
  by (simp add: Forecast_arn_def Forecast_history_def invoke_def sorted_reverse_def example_defs)

lemma example_described:
  "describe_forecast (example_client pages d e) a (world s) = (Inr d, Suc (world s))"
  by (simp add: example_client_def)

subsection \<open>status: a forecast of another predictor\<close>

text \<open>
  C1. When the listing yields a most recent forecast and \<^verbatim>\<open>describe_forecast\<close> reports for
  it a \<^verbatim>\<open>PredictorArn\<close> other than the identifier of the current predictor, \<^verbatim>\<open>status\<close>
  returns \<open>DOES_NOT_EXIST\<close>, whatever status the service reports (\<open>ACTIVE\<close> included).
\<close>

theorem status_other_predictor:
  assumes "Forecast_history cli self s = (Inr (p # ps), s1)"
    and "describe_forecast cli (fs_ForecastArn p) (world s1) = (Inr past_status, w)"
    and "fd_PredictorArn past_status \<noteq> predictor_arn self"
  shows "fst (Forecast_status cli names self s) = Inr DOES_NOT_EXIST"
  using assms by (simp add: Forecast_status_def invoke_def)

theorem status_other_predictor_witness:
  "fd_Status (example_description ''ACTIVE'') = Some ''ACTIVE''
   \<and> fd_PredictorArn (example_description ''ACTIVE'')
        \<noteq> predictor_arn (example_forecast ''arn:predictor/B'' [])
   \<and> fst (Forecast_status
            (example_client example_pages (example_description ''ACTIVE'') (Inl (OtherClientError [])))
            [''ACTIVE''] (example_forecast ''arn:predictor/B'' []) start) = Inr DOES_NOT_EXIST"
proof -
  have h3: "fd_PredictorArn (example_description ''ACTIVE'')
              \<noteq> predictor_arn (example_forecast ''arn:predictor/B'' [])"
    by (simp add: example_defs)
  show ?thesis
    using status_other_predictor[OF example_history example_described h3,
            where names = "[''ACTIVE'']" and s = start] h3
    by (simp add: example_description_def)
qed

subsection \<open>status: datasets newer than the forecast\<close>

lemma datasets_changed_newer:
  assumes "\<forall>d \<in> set ds. ds_LastModificationTime d \<noteq> None"
    and "\<exists>d \<in> set ds. \<exists>t. ds_LastModificationTime d = Some t \<and> t > c"
  shows "datasets_changed ds (Some c) = Inr True"
  using assms by (induction ds) (auto split: option.splits)

lemma datasets_changed_older:
  assumes "\<forall>d \<in> set ds. \<exists>t. ds_LastModificationTime d = Some t \<and> t \<le> c"
  shows "datasets_changed ds (Some c) = Inr False"
  using assms by (induction ds) (auto split: option.splits)

text \<open>
  C2. When the most recent forecast was created at time \<open>c\<close>, every dataset of the
  dataset group carries a last-modification time and one of them is strictly greater
  than \<open>c\<close>, \<^verbatim>\<open>status\<close> returns \<open>DOES_NOT_EXIST\<close>, whatever status (and whatever
  predictor) the service reports.
\<close>

theorem status_datasets_newer:
  assumes "Forecast_history cli self s = (Inr (p # ps), s1)"
    and "describe_forecast cli (fs_ForecastArn p) (world s1) = (Inr past_status, w)"
    and "fd_CreationTime past_status = Some c"
    and "\<forall>d \<in> set (datasets (dataset_group self)). ds_LastModificationTime d \<noteq> None"
    and "\<exists>d \<in> set (datasets (dataset_group self)).
           \<exists>t. ds_LastModificationTime d = Some t \<and> t > c"
  shows "fst (Forecast_status cli names self s) = Inr DOES_NOT_EXIST"
  using assms(1-3) datasets_changed_newer[OF assms(4,5)]
  by (simp add: Forecast_status_def invoke_def)

theorem status_datasets_newer_witness:
  "fd_Status (example_description ''ACTIVE'') = Some ''ACTIVE''
   \<and> fd_PredictorArn (example_description ''ACTIVE'')
        = predictor_arn (example_forecast ''arn:predictor/A'' [35, 41])
   \<and> fst (Forecast_status
            (example_client example_pages (example_description ''ACTIVE'') (Inl (OtherClientError [])))
            [''ACTIVE''] (example_forecast ''arn:predictor/A'' [35, 41]) start) = Inr DOES_NOT_EXIST"
proof -
  have h3: "fd_CreationTime (example_description ''ACTIVE'') = Some 40"
    by (simp add: example_defs)
  have h4: "\<forall>d \<in> set (datasets (dataset_group (example_forecast ''arn:predictor/A'' [35, 41]))).
              ds_LastModificationTime d \<noteq> None"
    by (simp add: example_defs)
  have h5: "\<exists>d \<in> set (datasets (dataset_group (example_forecast ''arn:predictor/A'' [35, 41]))).
              \<exists>t. ds_LastModificationTime d = Some t \<and> t > 40"
    by (simp add: example_defs)
  show ?thesis
    using status_datasets_newer[OF example_history example_described h3 h4 h5,
            where names = "[''ACTIVE'']" and s = start]
    by (simp add: example_description_def example_forecast_def)
qed

subsection \<open>status and arn on an empty history\<close>

text \<open>
  C3. When the paginated listing returns no forecast on any page, \<^verbatim>\<open>history\<close> returns the
  empty list, \<^verbatim>\<open>status\<close> returns \<open>DOES_NOT_EXIST\<close> and \<^verbatim>\<open>arn\<close> returns \<^verbatim>\<open>None\<close>; none of
  the three raises.
\<close>

theorem empty_history:
  assumes "list_forecasts cli [\<lparr>Key = ''DatasetGroupArn'', Condition = ''IS'',
                      Value = dataset_group_arn (dataset_group self)\<rparr>] (world s) = (Inr pages, w)"
    and "extend_pages pages = []"
  shows "fst (Forecast_history cli self s) = Inr []
       \<and> fst (Forecast_status cli names self s) = Inr DOES_NOT_EXIST
       \<and> fst (Forecast_arn cli self s) = Inr None"
  using assms
  by (simp add: Forecast_status_def Forecast_arn_def Forecast_history_def invoke_def
        sorted_reverse_def)

theorem empty_history_witness:
  "extend_pages [\<lparr>Forecasts = Some []\<rparr>, \<lparr>Forecasts = None\<rparr>] = []
   \<and> fst (Forecast_history
            (example_client [\<lparr>Forecasts = Some []\<rparr>, \<lparr>Forecasts = None\<rparr>]
               (example_description ''ACTIVE'') (Inl (OtherClientError [])))
            (example_forecast ''arn:predictor/A'' []) start) = Inr []
   \<and> fst (Forecast_status
            (example_client [\<lparr>Forecasts = Some []\<rparr>, \<lparr>Forecasts = None\<rparr>]
               (example_description ''ACTIVE'') (Inl (OtherClientError [])))
            [''ACTIVE''] (example_forecast ''arn:predictor/A'' []) start) = Inr DOES_NOT_EXIST
   \<and> fst (Forecast_arn
            (example_client [\<lparr>Forecasts = Some []\<rparr>, \<lparr>Forecasts = None\<rparr>]
               (example_description ''ACTIVE'') (Inl (OtherClientError [])))
            (example_forecast ''arn:predictor/A'' []) start) = Inr None"
proof -
  have h1: "list_forecasts
      (example_client [\<lparr>Forecasts = Some []\<rparr>, \<lparr>Forecasts = None\<rparr>]
         (example_description ''ACTIVE'') (Inl (OtherClientError [])))
      [\<lparr>Key = ''DatasetGroupArn'', Condition = ''IS'',
         Value = dataset_group_arn (dataset_group (example_forecast ''arn:predictor/A'' []))\<rparr>]
      (world start)
      = (Inr [\<lparr>Forecasts = Some []\<rparr>, \<lparr>Forecasts = None\<rparr>], 1)"
    by (simp add: example_defs)
  have h2: "extend_pages [\<lparr>Forecasts = Some []\<rparr>, \<lparr>Forecasts = None\<rparr>] = []"
    by simp
  show ?thesis
    using empty_history[OF h1 h2, of "[''ACTIVE'']"] h2 by simp
qed

subsection \<open>history\<close>

lemma keyed_total:
  assumes "\<forall>x \<in> set xs. fs_LastModificationTime x \<noteq> None"
  shows "\<exists>kxs. keyed xs = Inr kxs \<and> map snd kxs = xs
          \<and> (\<forall>(t, x) \<in> set kxs. fs_LastModificationTime x = Some t)"
  using assms by (induction xs) (auto split: option.splits)

lemma sorted_reverse_sorted:
  assumes "\<forall>x \<in> set xs. fs_LastModificationTime x \<noteq> None"
  shows "\<exists>ys ts. sorted_reverse xs = Inr ys \<and> mset ys = mset xs
          \<and> map fs_LastModificationTime ys = map Some ts \<and> sorted_wrt (\<lambda>a b. a \<ge> b) ts"
proof -
  from keyed_total[OF assms] obtain kxs where k: "keyed xs = Inr kxs" "map snd kxs = xs"
    and inv: "\<forall>(t, x) \<in> set kxs. fs_LastModificationTime x = Some t" by blast
  let ?s = "rev (sort_key fst (rev kxs))"
  have r: "sorted_reverse xs = Inr (map snd ?s)"
    using k by (simp add: sorted_reverse_def)
  have m: "mset (map snd ?s) = mset xs"
    using k(2) by (metis mset_map mset_rev mset_sort)
  have "\<forall>(t, x) \<in> set ?s. fs_LastModificationTime x = Some t"
    using inv by simp
  then have keys: "map fs_LastModificationTime (map snd ?s) = map Some (map fst ?s)"
    by (induction ?s) auto
  have "sorted (map fst (sort_key fst (rev kxs)))"
    by simp
  then have "sorted_wrt (\<lambda>a b. a \<ge> b) (map fst ?s)"
    by (simp add: rev_map[symmetric] sorted_wrt_rev del: sorted_sort_key)
  with r m keys show ?thesis by blast
qed

text \<open>
  C8. \<^verbatim>\<open>history\<close> issues one listing, filtered by the identifier of the dataset group,
  and (every listed forecast carrying a last-modification time) returns the forecasts of
  all pages, each as often as listed, in descending order of the last-modification time;
  when the pages hold no forecast it returns the empty list and does not raise.
\<close>

theorem history_sorted:
  assumes "list_forecasts cli [\<lparr>Key = ''DatasetGroupArn'', Condition = ''IS'',
                      Value = dataset_group_arn (dataset_group self)\<rparr>] (world s) = (Inr pages, w)"
    and "\<forall>x \<in> set (extend_pages pages). fs_LastModificationTime x \<noteq> None"
  shows "\<exists>ys ts. Forecast_history cli self s =
            (Inr ys, s\<lparr>world := w, calls := calls s @ [ListForecasts [\<lparr>Key = ''DatasetGroupArn'',
                 Condition = ''IS'', Value = dataset_group_arn (dataset_group self)\<rparr>]]\<rparr>)
          \<and> mset ys = mset (extend_pages pages)
          \<and> map fs_LastModificationTime ys = map Some ts
          \<and> sorted_wrt (\<lambda>a b. a \<ge> b) ts
          \<and> (extend_pages pages = [] \<longrightarrow> ys = [])"
proof -
  from sorted_reverse_sorted[OF assms(2)] obtain ys ts where
    a: "sorted_reverse (extend_pages pages) = Inr ys" "mset ys = mset (extend_pages pages)"
      "map fs_LastModificationTime ys = map Some ts" "sorted_wrt (\<lambda>a b. a \<ge> b) ts" by blast
  have "Forecast_history cli self s =
            (Inr ys, s\<lparr>world := w, calls := calls s @ [ListForecasts [\<lparr>Key = ''DatasetGroupArn'',
                 Condition = ''IS'', Value = dataset_group_arn (dataset_group self)\<rparr>]]\<rparr>)"
    using assms(1) a(1) by (simp add: Forecast_history_def invoke_def)
  moreover have "extend_pages pages = [] \<longrightarrow> ys = []"
    using a(2) by auto
  ultimately show ?thesis using a by blast
qed

theorem history_sorted_witness:
  "extend_pages example_pages =
     [\<lparr>fs_ForecastArn = Some ''arn:forecast/f1'', fs_LastModificationTime = Some 10\<rparr>,
      \<lparr>fs_ForecastArn = Some ''arn:forecast/f2'', fs_LastModificationTime = Some 30\<rparr>,
      \<lparr>fs_ForecastArn = Some ''arn:forecast/f3'', fs_LastModificationTime = Some 20\<rparr>]
   \<and> fst (Forecast_history
            (example_client example_pages (example_description ''ACTIVE'') (Inl (OtherClientError [])))
            (example_forecast ''arn:predictor/A'' []) start) =
       Inr [\<lparr>fs_ForecastArn = Some ''arn:forecast/f2'', fs_LastModificationTime = Some 30\<rparr>,
            \<lparr>fs_ForecastArn = Some ''arn:forecast/f3'', fs_LastModificationTime = Some 20\<rparr>,
            \<lparr>fs_ForecastArn = Some ''arn:forecast/f1'', fs_LastModificationTime = Some 10\<rparr>]"
proof -
  have h1: "list_forecasts
      (example_client example_pages (example_description ''ACTIVE'') (Inl (OtherClientError [])))
      [\<lparr>Key = ''DatasetGroupArn'', Condition = ''IS'',
         Value = dataset_group_arn (dataset_group (example_forecast ''arn:predictor/A'' []))\<rparr>]
      (world start)
      = (Inr example_pages, 1)"
    by (simp add: example_defs)
  have h2: "\<forall>x \<in> set (extend_pages example_pages). fs_LastModificationTime x \<noteq> None"
    by (simp add: example_defs)
  show ?thesis
    using history_sorted[OF h1 h2] by (simp add: example_history) (simp add: example_pages_def)
qed

subsection \<open>status: a reported status that is no member of the enumeration\<close>

text \<open>
  C9. When the most recent forecast exists, was made by the current predictor, no dataset
  is newer than it, and the service reports a status whose name is no member of
  \<^verbatim>\<open>Status\<close>, \<^verbatim>\<open>status\<close> ends with the \<^verbatim>\<open>KeyError\<close> of the lookup: there is no default
  and no recovery.
\<close>

theorem status_unmapped:
  assumes "Forecast_history cli self s = (Inr (p # ps), s1)"
    and "describe_forecast cli (fs_ForecastArn p) (world s1) = (Inr past_status, w)"
    and "fd_PredictorArn past_status = predictor_arn self"
    and "fd_CreationTime past_status = Some c"
    and "\<forall>d \<in> set (datasets (dataset_group self)).
           \<exists>t. ds_LastModificationTime d = Some t \<and> t \<le> c"
    and "fd_Status past_status = Some n"
    and "n \<notin> set (Status_names names)"
  shows "fst (Forecast_status cli names self s) = Inl (KeyError (Some n))"
  using assms(1-4,6,7) datasets_changed_older[OF assms(5)]
  by (simp add: Forecast_status_def invoke_def Status_getitem_def Status_names_def)

theorem status_unmapped_witness:
  "''CREATE_STOPPED'' \<notin> set (Status_names [''ACTIVE''])
   \<and> fst (Forecast_status
            (example_client example_pages (example_description ''CREATE_STOPPED'')
               (Inl (OtherClientError [])))
            [''ACTIVE''] (example_forecast ''arn:predictor/A'' [35, 40]) start)
       = Inl (KeyError (Some ''CREATE_STOPPED''))"
proof -
  have h3: "fd_PredictorArn (example_description ''CREATE_STOPPED'')
              = predictor_arn (example_forecast ''arn:predictor/A'' [35, 40])"
    by (simp add: example_defs)
  have h4: "fd_CreationTime (example_description ''CREATE_STOPPED'') = Some 40"
    by (simp add: example_defs)
  have h5: "\<forall>d \<in> set (datasets (dataset_group (example_forecast ''arn:predictor/A'' [35, 40]))).
              \<exists>t. ds_LastModificationTime d = Some t \<and> t \<le> 40"
    by (simp add: example_defs)
  have h6: "fd_Status (example_description ''CREATE_STOPPED'') = Some ''CREATE_STOPPED''"
    by (simp add: example_defs)
  have h7: "''CREATE_STOPPED'' \<notin> set (Status_names [''ACTIVE''])"
    by (simp add: Status_names_def)
  show ?thesis
    using status_unmapped[OF example_history example_described h3 h4 h5 h6 h7,
            where s = start] h7
    by simp
qed

subsection \<open>create\<close>

lemma create_answered:
  assumes "\<not> keyword_repeated (forecast_config self)"
    and "create_forecast cli
           \<lparr>cf_ForecastName = ''forecast_'' @ dataset_group_name (dataset_group self) @ ''_''
                  @ latest_timestamp (dataset_group self),
            cf_PredictorArn = predictor_arn self,
            cf_Tags = tags self, cf_config = forecast_config self\<rparr> (world s) = (r, w)"
  shows "Forecast_create cli self s =
     (let name = ''forecast_'' @ dataset_group_name (dataset_group self) @ ''_''
                  @ latest_timestamp (dataset_group self);
          s2 = s\<lparr>world := w,
                  calls := calls s @ [CreateForecast \<lparr>cf_ForecastName = name,
                     cf_PredictorArn = predictor_arn self,
                     cf_Tags = tags self, cf_config = forecast_config self\<rparr>],
                  logged := logged s @ [(INFO, ''Creating forecast '' @ name)]\<rparr>
      in case r of
           Inr _ \<Rightarrow> (Inr (), s2)
         | Inl (ResourceAlreadyExistsException m) \<Rightarrow>
             (Inr (), s2\<lparr>logged := logged s2 @
                           [(DEBUG, ''Forecast '' @ name @ '' is already creating'')]\<rparr>)
         | Inl (ResourceInUseException m) \<Rightarrow>
             (Inr (), s2\<lparr>logged := logged s2 @
                           [(DEBUG, ''Forecast '' @ name @ '' is updating: '' @ m)]\<rparr>)
         | Inl e \<Rightarrow> (Inl (ClientError e), s2))"
proof (cases r)
  case (Inl e)
  then show ?thesis using assms
    by (cases e) (simp_all add: Forecast_create_def invoke_def logger_def Let_def)
next
  case (Inr u)
  then show ?thesis using assms
    by (simp add: Forecast_create_def invoke_def logger_def Let_def)
qed

lemma create_result:
  assumes "\<not> keyword_repeated (forecast_config self)"
    and "create_forecast cli
           \<lparr>cf_ForecastName = ''forecast_'' @ dataset_group_name (dataset_group self) @ ''_''
                  @ latest_timestamp (dataset_group self),
            cf_PredictorArn = predictor_arn self,
            cf_Tags = tags self, cf_config = forecast_config self\<rparr> (world s) = (r, w)"
  shows "fst (Forecast_create cli self s) =
           (case r of Inr _ \<Rightarrow> Inr ()
                    | Inl e \<Rightarrow> if absorbed e then Inr () else Inl (ClientError e))"
    and "world (snd (Forecast_create cli self s)) = w"
proof -
  note a = create_answered[OF assms]
  show "fst (Forecast_create cli self s) =
           (case r of Inr _ \<Rightarrow> Inr ()
                    | Inl e \<Rightarrow> if absorbed e then Inr () else Inl (ClientError e))"
  proof (cases r)
    case (Inl e)
    then show ?thesis unfolding a by (cases e) (simp_all add: Let_def absorbed_def)
  next
    case (Inr u)
    then show ?thesis unfolding a by (simp add: Let_def)
  qed
  show "world (snd (Forecast_create cli self s)) = w"
  proof (cases r)
    case (Inl e)
    then show ?thesis unfolding a by (cases e) (simp_all add: Let_def)
  next
    case (Inr u)
    then show ?thesis unfolding a by (simp add: Let_def)
  qed
qed

text \<open>
  C4. Let \<open>r1\<close> be the answer of the service to the \<^verbatim>\<open>create_forecast\<close> call of a first
  \<^verbatim>\<open>create()\<close> and \<open>r2\<close> its answer to the call of a second \<^verbatim>\<open>create()\<close> right after it.
  When each answer is a success, a resource-already-exists error or a resource-in-use
  error, neither \<^verbatim>\<open>create()\<close> raises. An absorbed error leaves one debug record and
  nothing else (one call, no retry); every other error of the service leaves \<^verbatim>\<open>create()\<close>
  as it is.
\<close>

theorem create_twice:
  assumes "\<not> keyword_repeated (forecast_config self)"
    and "name = ''forecast_'' @ dataset_group_name (dataset_group self) @ ''_''
                  @ latest_timestamp (dataset_group self)"
    and "request = \<lparr>cf_ForecastName = name, cf_PredictorArn = predictor_arn self,
                     cf_Tags = tags self, cf_config = forecast_config self\<rparr>"
    and "create_forecast cli request (world s) = (r1, w1)"
    and "create_forecast cli request w1 = (r2, w2)"
  shows "((r1 = Inr () \<or> (\<exists>e. r1 = Inl e \<and> absorbed e))
            \<and> (r2 = Inr () \<or> (\<exists>e. r2 = Inl e \<and> absorbed e))
            \<longrightarrow> fst (Forecast_create cli self s) = Inr ()
              \<and> fst (Forecast_create cli self (snd (Forecast_create cli self s))) = Inr ())
       \<and> (\<forall>m. r1 = Inl (ResourceAlreadyExistsException m) \<longrightarrow>
            Forecast_create cli self s =
               (Inr (), s\<lparr>world := w1, calls := calls s @ [CreateForecast request],
                          logged := logged s @ [(INFO, ''Creating forecast '' @ name),
                             (DEBUG, ''Forecast '' @ name @ '' is already creating'')]\<rparr>))
       \<and> (\<forall>m. r1 = Inl (ResourceInUseException m) \<longrightarrow>
            Forecast_create cli self s =
               (Inr (), s\<lparr>world := w1, calls := calls s @ [CreateForecast request],
                          logged := logged s @ [(INFO, ''Creating forecast '' @ name),
                             (DEBUG, ''Forecast '' @ name @ '' is updating: '' @ m)]\<rparr>))
       \<and> (\<forall>e. r1 = Inl e \<and> \<not> absorbed e \<longrightarrow>
            fst (Forecast_create cli self s) = Inl (ClientError e))"
proof -
  note h1 = assms(4)[unfolded assms(3) assms(2)]
  note a1 = create_answered[OF assms(1) h1]
  note f1 = create_result[OF assms(1) h1]
  have h2: "create_forecast cli
           \<lparr>cf_ForecastName = ''forecast_'' @ dataset_group_name (dataset_group self) @ ''_''
                  @ latest_timestamp (dataset_group self),
            cf_PredictorArn = predictor_arn self,
            cf_Tags = tags self, cf_config = forecast_config self\<rparr>
            (world (snd (Forecast_create cli self s))) = (r2, w2)"
    unfolding f1(2) using assms(5) unfolding assms(3) assms(2) .
  note f2 = create_result[OF assms(1) h2]
  have first: "fst (Forecast_create cli self s) = Inr ()"
    if "r1 = Inr () \<or> (\<exists>e. r1 = Inl e \<and> absorbed e)"
    unfolding f1(1) using that by auto
  have second: "fst (Forecast_create cli self (snd (Forecast_create cli self s))) = Inr ()"
    if "r2 = Inr () \<or> (\<exists>e. r2 = Inl e \<and> absorbed e)"
    unfolding f2(1) using that by auto
  have exists: "Forecast_create cli self s =
               (Inr (), s\<lparr>world := w1, calls := calls s @ [CreateForecast request],
                          logged := logged s @ [(INFO, ''Creating forecast '' @ name),
                             (DEBUG, ''Forecast '' @ name @ '' is already creating'')]\<rparr>)"
    if "r1 = Inl (ResourceAlreadyExistsException m)" for m
    unfolding a1 assms(3) assms(2) using that by (simp add: Let_def)
  have in_use: "Forecast_create cli self s =
               (Inr (), s\<lparr>world := w1, calls := calls s @ [CreateForecast request],
                          logged := logged s @ [(INFO, ''Creating forecast '' @ name),
                             (DEBUG, ''Forecast '' @ name @ '' is updating: '' @ m)]\<rparr>)"
    if "r1 = Inl (ResourceInUseException m)" for m
    unfolding a1 assms(3) assms(2) using that by (simp add: Let_def)
  have other: "fst (Forecast_create cli self s) = Inl (ClientError e)"
    if "r1 = Inl e" "\<not> absorbed e" for e
    unfolding f1(1) using that by simp
  show ?thesis using first second exists in_use other by blast
qed

theorem create_twice_witness:
  "absorbed (ResourceAlreadyExistsException ''exists'')
   \<and> fst (Forecast_create
          (example_client [] (example_description ''ACTIVE'') (Inl (OtherClientError [])))
          (example_forecast ''arn:predictor/A'' []) start) = Inr ()
   \<and> fst (Forecast_create
          (example_client [] (example_description ''ACTIVE'') (Inl (OtherClientError [])))
          (example_forecast ''arn:predictor/A'' [])
          (snd (Forecast_create
                  (example_client [] (example_description ''ACTIVE'') (Inl (OtherClientError [])))
                  (example_forecast ''arn:predictor/A'' []) start))) = Inr ()"
proof -
  let ?cli = "example_client [] (example_description ''ACTIVE'') (Inl (OtherClientError []))"
  let ?self = "example_forecast ''arn:predictor/A'' []"
  let ?name = "''forecast_'' @ dataset_group_name (dataset_group ?self) @ ''_''
                  @ latest_timestamp (dataset_group ?self)"
  let ?request = "\<lparr>cf_ForecastName = ?name, cf_PredictorArn = predictor_arn ?self,
                     cf_Tags = tags ?self, cf_config = forecast_config ?self\<rparr>"
  have h1: "\<not> keyword_repeated (forecast_config ?self)"
    by (simp add: keyword_repeated_def example_defs)
  have h4: "create_forecast ?cli ?request (world start) = (Inr (), 1)"
    by (simp add: example_defs)
  have h5: "create_forecast ?cli ?request 1 = (Inl (ResourceAlreadyExistsException ''exists''), 2)"
    by (simp add: example_defs)
  have h6: "absorbed (ResourceAlreadyExistsException ''exists'')"
    by (simp add: absorbed_def)
  show ?thesis
    using create_twice[OF h1 refl refl h4 h5] h6 by simp
qed

text \<open>
  C10. The name under which \<^verbatim>\<open>create()\<close> issues its request is
  \<open>forecast_{group}_{timestamp}\<close>, made of the name and the latest timestamp of the dataset
  group alone: two \<^verbatim>\<open>Forecast\<close> objects that agree on both issue their request under the
  same name, whatever their predictor, configuration, tags, client and session.
\<close>

theorem create_name:
  assumes "\<not> keyword_repeated (forecast_config f1)"
    and "\<not> keyword_repeated (forecast_config f2)"
    and "dataset_group_name (dataset_group f1) = dataset_group_name (dataset_group f2)"
    and "latest_timestamp (dataset_group f1) = latest_timestamp (dataset_group f2)"
  shows "\<exists>r1 r2. calls (snd (Forecast_create cli1 f1 s1)) = calls s1 @ [CreateForecast r1]
           \<and> calls (snd (Forecast_create cli2 f2 s2)) = calls s2 @ [CreateForecast r2]
           \<and> cf_ForecastName r1 = ''forecast_'' @ dataset_group_name (dataset_group f1) @ ''_''
                  @ latest_timestamp (dataset_group f1)
           \<and> cf_ForecastName r2 = cf_ForecastName r1"
proof -
  have one: "\<not> keyword_repeated (forecast_config f) \<Longrightarrow>
     calls (snd (Forecast_create cli f s)) = calls s @ [CreateForecast
        \<lparr>cf_ForecastName = ''forecast_'' @ dataset_group_name (dataset_group f) @ ''_''
                  @ latest_timestamp (dataset_group f), cf_PredictorArn = predictor_arn f,
                     cf_Tags = tags f, cf_config = forecast_config f\<rparr>]"
    for f and cli :: "'x client" and s :: "'x session"
    by (auto simp: Forecast_create_def invoke_def logger_def Let_def
             split: prod.splits sum.splits client_error.splits)
  show ?thesis
    using one[OF assms(1), of cli1 s1] one[OF assms(2), of cli2 s2] assms(3,4) by simp
qed

theorem create_name_witness:
  "calls (snd (Forecast_create
          (example_client [] (example_description ''ACTIVE'') (Inl (OtherClientError [])))
          (example_forecast ''arn:predictor/A'' []) start)) =
     [CreateForecast \<lparr>cf_ForecastName = ''forecast_sales_2021-05-01T00:00:00Z'',
                      cf_PredictorArn = Some ''arn:predictor/A'', cf_Tags = [],
                      cf_config = [(''ForecastTypes'', ConfigList [''0.1'', ''0.5''])]\<rparr>]
   \<and> (\<exists>r. calls (snd (Forecast_create
          (example_client example_pages (example_description ''ACTIVE'') (Inl (OtherClientError [])))
          (example_forecast ''arn:predictor/B'' [7]) (start\<lparr>world := 3\<rparr>))) = [CreateForecast r]
        \<and> cf_ForecastName r = ''forecast_sales_2021-05-01T00:00:00Z'')"
proof -
  let ?f1 = "example_forecast ''arn:predictor/A'' []"
  let ?f2 = "example_forecast ''arn:predictor/B'' [7]"
  have h1: "\<not> keyword_repeated (forecast_config ?f1)"
    by (simp add: keyword_repeated_def example_defs)
  have h2: "\<not> keyword_repeated (forecast_config ?f2)"
    by (simp add: keyword_repeated_def example_defs)
  have h3: "dataset_group_name (dataset_group ?f1) = dataset_group_name (dataset_group ?f2)"
    by (simp add: example_defs)
  have h4: "latest_timestamp (dataset_group ?f1) = latest_timestamp (dataset_group ?f2)"
    by (simp add: example_defs)
  show ?thesis
    using create_name[OF h1 h2 h3 h4,
        of "example_client [] (example_description ''ACTIVE'') (Inl (OtherClientError []))" start
           "example_client example_pages (example_description ''ACTIVE'') (Inl (OtherClientError []))"
           "start\<lparr>world := 3\<rparr>"]
    by (simp add: Forecast_create_def invoke_def logger_def keyword_repeated_def Let_def
          example_defs)
qed

subsection \<open>export\<close>

text \<open>
  C5. When \<^verbatim>\<open>arn\<close> is read as \<^verbatim>\<open>None\<close>, \<^verbatim>\<open>export\<close> raises the
  \<^verbatim>\<open>ValueError\<close> and has issued one call of the client, the listing by which \<^verbatim>\<open>arn\<close> was
  read: no export job is described or created.
\<close>

theorem export_without_arn:
  assumes "Forecast_arn cli self s = (Inr None, s1)"
  shows "Forecast_export cli names role self dataset_file s =
           (Inl (ValueError ''Forecast does not yet exist - cannot perform export.''), s1)
       \<and> calls s1 = calls s @ [ListForecasts [\<lparr>Key = ''DatasetGroupArn'', Condition = ''IS'',
                      Value = dataset_group_arn (dataset_group self)\<rparr>]]"
  using assms arn_calls[OF assms] by (simp add: Forecast_export_def falsy_def)

theorem export_without_arn_witness:
  "Forecast_export
     (example_client [\<lparr>Forecasts = Some []\<rparr>] (example_description ''ACTIVE'')
        (Inl (ResourceNotFoundException [])))
     [''ACTIVE''] None (example_forecast ''arn:predictor/A'' []) \<lparr>bucket = ''data''\<rparr> start =
     (Inl (ValueError ''Forecast does not yet exist - cannot perform export.''),
      \<lparr>world = 1, calls = [ListForecasts [\<lparr>Key = ''DatasetGroupArn'', Condition = ''IS'',
                        Value = ''arn:dataset-group/sales''\<rparr>]], logged = []\<rparr>)"
proof -
  let ?cli = "example_client [\<lparr>Forecasts = Some []\<rparr>] (example_description ''ACTIVE'')
                (Inl (ResourceNotFoundException []))"
  let ?self = "example_forecast ''arn:predictor/A'' []"
  have h: "Forecast_arn ?cli ?self start =
     (Inr None, \<lparr>world = 1, calls = [ListForecasts [\<lparr>Key = ''DatasetGroupArn'', Condition = ''IS'',
                        Value = ''arn:dataset-group/sales''\<rparr>]], logged = []\<rparr>)"
    by (simp add: example_no_arn) (simp add: start_def)
  show ?thesis
    using export_without_arn[OF h] by simp
qed

text \<open>
  That \<^verbatim>\<open>export\<close> attempts no remote call at all when \<^verbatim>\<open>arn\<close> is absent does not hold:
  on a dataset group without forecasts \<^verbatim>\<open>arn\<close> is \<^verbatim>\<open>None\<close>, and \<^verbatim>\<open>export\<close>, started with
  no call on record, ends with the listing on record.
\<close>

theorem export_without_arn_counterexample:
  "fst (Forecast_arn
          (example_client [\<lparr>Forecasts = Some []\<rparr>] (example_description ''ACTIVE'')
             (Inl (ResourceNotFoundException [])))
          (example_forecast ''arn:predictor/A'' []) start) = Inr None
   \<and> calls start = []
   \<and> calls (snd (Forecast_export
          (example_client [\<lparr>Forecasts = Some []\<rparr>] (example_description ''ACTIVE'')
             (Inl (ResourceNotFoundException [])))
          [''ACTIVE''] None (example_forecast ''arn:predictor/A'' []) \<lparr>bucket = ''data''\<rparr> start)) =
       [ListForecasts [\<lparr>Key = ''DatasetGroupArn'', Condition = ''IS'',
                        Value = ''arn:dataset-group/sales''\<rparr>]]"
  by (simp add: Forecast_export_def falsy_def example_no_arn) (simp add: start_def)

text \<open>
  C6. When \<^verbatim>\<open>arn\<close> resolves to a forecast and \<^verbatim>\<open>describe_forecast_export_job\<close> reports the
  export job as not found, \<^verbatim>\<open>export\<close> issues one \<^verbatim>\<open>create_forecast_export_job\<close> call, with
  the destination path \<open>s3://{bucket}/exports/export_{group}_{timestamp}\<close>, and (the
  service accepting it) returns an \<^verbatim>\<open>Export\<close> of status \<open>CREATE_PENDING\<close>. The calls of the
  whole \<^verbatim>\<open>export\<close> are the three listings by which \<^verbatim>\<open>arn\<close> is read, the describe call and
  that one create call.
\<close>

theorem export_creates:
  assumes "Forecast_arn cli self s = (Inr (Some a1), s1)" and "a1 \<noteq> []"
    and "Forecast_arn cli self s1 = (Inr (Some a2), s2)"
    and "export_name = ''export_'' @ dataset_group_name (dataset_group self) @ ''_''
                               @ latest_timestamp (dataset_group self)"
    and "job = replace '':forecast/'' '':forecast-export-job/'' a2 @ ''/'' @ export_name"
    and "describe_forecast_export_job cli job (world s2) = (Inl (ResourceNotFoundException m), w3)"
    and "Forecast_arn cli self (logger INFO (''Creating forecast export '' @ export_name)
            (s2\<lparr>world := w3, calls := calls s2 @ [DescribeForecastExportJob job]\<rparr>)) = (Inr a3, s4)"
    and "request = \<lparr>ce_ForecastArn = a3, ce_ForecastExportJobName = export_name,
                     ce_Path = ''s3://'' @ bucket dataset_file @ ''/exports/export_''
                        @ dataset_group_name (dataset_group self) @ ''_''
                        @ latest_timestamp (dataset_group self),
                     ce_RoleArn = role\<rparr>"
    and "create_forecast_export_job cli request (world s4) = (Inr (), w5)"
    and "filters = [\<lparr>Key = ''DatasetGroupArn'', Condition = ''IS'',
                      Value = dataset_group_arn (dataset_group self)\<rparr>]"
  shows "fst (Forecast_export cli names role self dataset_file s) = Inr \<lparr>status = CREATE_PENDING\<rparr>
       \<and> calls (snd (Forecast_export cli names role self dataset_file s)) =
           calls s @ [ListForecasts filters, ListForecasts filters, DescribeForecastExportJob job,
                      ListForecasts filters, CreateForecastExportJob request]"
proof -
  note c1 = arn_calls[OF assms(1)] and c2 = arn_calls[OF assms(3)] and c3 = arn_calls[OF assms(7)]
  have t: "export_try cli names self export_name s1 =
      (Inl (ClientError (ResourceNotFoundException m)),
       s2\<lparr>world := w3, calls := calls s2 @ [DescribeForecastExportJob job]\<rparr>)"
    using assms(3,5,6) by (simp add: export_try_def invoke_def Let_def)
  show ?thesis
    using assms(1,2,4,7-10) t c1 c2 c3
    by (simp add: Forecast_export_def falsy_def Let_def invoke_def export_return_def logger_def
          Export_new_def)
qed

theorem export_creates_witness:
  "fst (Forecast_export
          (example_client example_pages (example_description ''ACTIVE'')
             (Inl (ResourceNotFoundException ''none'')))
          [''ACTIVE''] (Some ''arn:role/r'') (example_forecast ''arn:predictor/A'' [])
          \<lparr>bucket = ''data''\<rparr> start) =
     Inr \<lparr>status = CREATE_PENDING\<rparr>
   \<and> calls (snd (Forecast_export
          (example_client example_pages (example_description ''ACTIVE'')
             (Inl (ResourceNotFoundException ''none'')))
          [''ACTIVE''] (Some ''arn:role/r'') (example_forecast ''arn:predictor/A'' [])
          \<lparr>bucket = ''data''\<rparr> start)) =
       [ListForecasts [\<lparr>Key = ''DatasetGroupArn'', Condition = ''IS'', Value = ''arn:dataset-group/sales''\<rparr>],
        ListForecasts [\<lparr>Key = ''DatasetGroupArn'', Condition = ''IS'', Value = ''arn:dataset-group/sales''\<rparr>],
        DescribeForecastExportJob ''arn:forecast-export-job/f2/export_sales_2021-05-01T00:00:00Z'',
        ListForecasts [\<lparr>Key = ''DatasetGroupArn'', Condition = ''IS'', Value = ''arn:dataset-group/sales''\<rparr>],
        CreateForecastExportJob
          \<lparr>ce_ForecastArn = Some ''arn:forecast/f2'',
           ce_ForecastExportJobName = ''export_sales_2021-05-01T00:00:00Z'',
           ce_Path = ''s3://data/exports/export_sales_2021-05-01T00:00:00Z'',
           ce_RoleArn = Some ''arn:role/r''\<rparr>]"
proof -
  let ?cli = "example_client example_pages (example_description ''ACTIVE'')
                (Inl (ResourceNotFoundException ''none''))"
  have h2: "''arn:forecast/f2'' \<noteq> []"
    by simp
  have h6: "describe_forecast_export_job ?cli job (world s) =
               (Inl (ResourceNotFoundException ''none''), Suc (world s))"
    for job and s :: "nat session"
    by (simp add: example_client_def)
  have h9: "create_forecast_export_job ?cli req (world s) = (Inr (), Suc (world s))"
    for req and s :: "nat session"
    by (simp add: example_client_def)
  show ?thesis
    using export_creates[where names = "[''ACTIVE'']" and role = "Some ''arn:role/r''"
        and dataset_file = "\<lparr>bucket = ''data''\<rparr>" and s = start
        and self = "example_forecast ''arn:predictor/A'' []" and cli = ?cli,
        OF example_arn h2 example_arn refl refl h6 example_arn refl h9 refl]
    by (simp add: start_def example_forecast_def)
qed

text \<open>
  C7. When \<^verbatim>\<open>arn\<close> resolves to a forecast and \<^verbatim>\<open>describe_forecast_export_job\<close> raises the
  resource-in-use error, \<^verbatim>\<open>export\<close> logs the error, issues no create call (its calls are
  the two listings by which \<^verbatim>\<open>arn\<close> is read and the describe call) and returns an
  \<^verbatim>\<open>Export\<close> whose status was never assigned: it reads the default \<open>DOES_NOT_EXIST\<close>.
\<close>

theorem export_in_use:
  assumes "Forecast_arn cli self s = (Inr (Some a1), s1)" and "a1 \<noteq> []"
    and "Forecast_arn cli self s1 = (Inr (Some a2), s2)"
    and "export_name = ''export_'' @ dataset_group_name (dataset_group self) @ ''_''
                               @ latest_timestamp (dataset_group self)"
    and "job = replace '':forecast/'' '':forecast-export-job/'' a2 @ ''/'' @ export_name"
    and "describe_forecast_export_job cli job (world s2) = (Inl (ResourceInUseException m), w3)"
    and "filters = [\<lparr>Key = ''DatasetGroupArn'', Condition = ''IS'',
                      Value = dataset_group_arn (dataset_group self)\<rparr>]"
  shows "fst (Forecast_export cli names role self dataset_file s) = Inr Export_new
       \<and> status Export_new = DOES_NOT_EXIST
       \<and> calls (snd (Forecast_export cli names role self dataset_file s)) =
           calls s @ [ListForecasts filters, ListForecasts filters, DescribeForecastExportJob job]
       \<and> logged (snd (Forecast_export cli names role self dataset_file s)) =
           logged s @
             [(DEBUG, ''Forecast export '' @ export_name @ '' is updating: '' @ m),
              (DEBUG, ''Export status for '' @ export_name @ '' is Status.DOES_NOT_EXIST'')]"
proof -
  note c1 = arn_calls[OF assms(1)] and c2 = arn_calls[OF assms(3)]
  have t: "export_try cli names self export_name s1 =
      (Inl (ClientError (ResourceInUseException m)),
       s2\<lparr>world := w3, calls := calls s2 @ [DescribeForecastExportJob job]\<rparr>)"
    using assms(3,5,6) by (simp add: export_try_def invoke_def Let_def)
  show ?thesis
    using assms(1,2,4,7) t c1 c2
    by (simp add: Forecast_export_def falsy_def Let_def export_return_def logger_def
          Export_new_def)
qed

theorem export_in_use_witness:
  "fst (Forecast_export
          (example_client example_pages (example_description ''ACTIVE'')
             (Inl (ResourceInUseException ''busy'')))
          [''ACTIVE''] (Some ''arn:role/r'') (example_forecast ''arn:predictor/A'' [])
          \<lparr>bucket = ''data''\<rparr> start) =
     Inr \<lparr>status = DOES_NOT_EXIST\<rparr>
   \<and> calls (snd (Forecast_export
          (example_client example_pages (example_description ''ACTIVE'')
             (Inl (ResourceInUseException ''busy'')))
          [''ACTIVE''] (Some ''arn:role/r'') (example_forecast ''arn:predictor/A'' [])
          \<lparr>bucket = ''data''\<rparr> start)) =
       [ListForecasts [\<lparr>Key = ''DatasetGroupArn'', Condition = ''IS'', Value = ''arn:dataset-group/sales''\<rparr>],
        ListForecasts [\<lparr>Key = ''DatasetGroupArn'', Condition = ''IS'', Value = ''arn:dataset-group/sales''\<rparr>],
        DescribeForecastExportJob ''arn:forecast-export-job/f2/export_sales_2021-05-01T00:00:00Z'']
   \<and> logged (snd (Forecast_export
          (example_client example_pages (example_description ''ACTIVE'')
             (Inl (ResourceInUseException ''busy'')))
          [''ACTIVE''] (Some ''arn:role/r'') (example_forecast ''arn:predictor/A'' [])
          \<lparr>bucket = ''data''\<rparr> start)) =
       [(DEBUG, ''Forecast export export_sales_2021-05-01T00:00:00Z is updating: busy''),
        (DEBUG, ''Export status for export_sales_2021-05-01T00:00:00Z is Status.DOES_NOT_EXIST'')]"
proof -
  let ?cli = "example_client example_pages (example_description ''ACTIVE'')
                (Inl (ResourceInUseException ''busy''))"
  have h2: "''arn:forecast/f2'' \<noteq> []"
    by simp
  have h6: "describe_forecast_export_job ?cli job (world s) =
               (Inl (ResourceInUseException ''busy''), Suc (world s))"
    for job and s :: "nat session"
    by (simp add: example_client_def)
  show ?thesis
    using export_in_use[where names = "[''ACTIVE'']" and role = "Some ''arn:role/r''"
        and dataset_file = "\<lparr>bucket = ''data''\<rparr>" and s = start
        and self = "example_forecast ''arn:predictor/A'' []" and cli = ?cli,
        OF example_arn h2 example_arn refl refl h6 refl]
    by (simp add: start_def example_forecast_def Export_new_def)
qed

end
